theory Spec2Isabelle
  imports Complex_Main
begin

section \<open>Python text primitives used by the protocol engine\<close>

text \<open>
  Command lines are Python \<open>str\<close> values. They are modelled as \<open>string\<close>, one \<open>char\<close> per
  code point, for ASCII text: the white space of \<open>str.strip\<close> and \<open>str.split\<close> is the ASCII
  part of Python's set (TAB, LF, VT, FF, CR, FS, GS, RS, US and SPACE), the digits of
  \<open>int\<close> are \<open>0\<close> to \<open>9\<close>, and \<open>str.upper\<close> maps \<open>a\<close> to \<open>z\<close>. Unicode white space and
  Unicode decimal digits outside ASCII are not modelled.
\<close>

datatype py_exn = ValueError | FileNotFoundError | ConnectionError | DatabaseError

definition py_isspace :: "char \<Rightarrow> bool" where
  "py_isspace c = (c \<in> set [CHR 0x09, CHR 0x0A, CHR 0x0B, CHR 0x0C, CHR 0x0D,
                              CHR 0x1C, CHR 0x1D, CHR 0x1E, CHR 0x1F, CHR '' ''])"

definition py_strip :: "string \<Rightarrow> string" where
  "py_strip s = rev (dropWhile py_isspace (rev (dropWhile py_isspace s)))"

text \<open>\<open>str.split()\<close> without a separator: the maximal runs of non-space characters.\<close>

fun split_acc :: "string \<Rightarrow> string \<Rightarrow> string list" where
  "split_acc cur [] = (if cur = [] then [] else [cur])"
| "split_acc cur (c # cs) =
     (if py_isspace c then (if cur = [] then split_acc [] cs else cur # split_acc [] cs)
      else split_acc (cur @ [c]) cs)"

definition py_split :: "string \<Rightarrow> string list" where
  "py_split s = split_acc [] s"

text \<open>\<open>str.split(sep)\<close> for a one-character separator: one more part than separators.\<close>

fun split_on :: "char \<Rightarrow> string \<Rightarrow> string list" where
  "split_on sep [] = [[]]"
| "split_on sep (c # cs) =
     (if c = sep then [] # split_on sep cs
      else (case split_on sep cs of [] \<Rightarrow> [[c]] | p # ps \<Rightarrow> (c # p) # ps))"

text \<open>Tuple unpacking \<open>a, b = xs\<close>: ValueError unless there are exactly two values.\<close>

fun unpack2 :: "'a list \<Rightarrow> py_exn + ('a \<times> 'a)" where
  "unpack2 [a, b] = Inr (a, b)"
| "unpack2 _ = Inl ValueError"

definition upper_char :: "char \<Rightarrow> char" where
  "upper_char c =
     (case map_of (zip ''abcdefghijklmnopqrstuvwxyz'' ''ABCDEFGHIJKLMNOPQRSTUVWXYZ'') c of
        None \<Rightarrow> c | Some u \<Rightarrow> u)"

definition py_upper :: "string \<Rightarrow> string" where
  "py_upper s = map upper_char s"

text \<open>
  \<open>int(s)\<close> in base 10: surrounding white space is dropped, one optional sign, then digits
  in which single underscores may separate digits. Anything else raises ValueError.
  The interpreter's optional cap on the number of digits is not modelled.
\<close>

definition digit_val :: "char \<Rightarrow> nat option" where
  "digit_val c = map_of (zip ''0123456789'' [0, 1, 2, 3, 4, 5, 6, 7, 8, 9]) c"

fun parse_digits :: "nat \<Rightarrow> bool \<Rightarrow> string \<Rightarrow> nat option" where
  "parse_digits acc prev [] = (if prev then Some acc else None)"
| "parse_digits acc prev (c # cs) =
     (case digit_val c of
        Some d \<Rightarrow> parse_digits (10 * acc + d) True cs
      | None \<Rightarrow> (if c = CHR ''_'' \<and> prev then parse_digits acc False cs else None))"

definition py_int :: "string \<Rightarrow> py_exn + int" where
  "py_int s =
     (case py_strip s of
        [] \<Rightarrow> Inl ValueError
      | c # cs \<Rightarrow>
          (if c = CHR ''-'' then
             (case parse_digits 0 False cs of None \<Rightarrow> Inl ValueError | Some n \<Rightarrow> Inr (- int n))
           else if c = CHR ''+'' then
             (case parse_digits 0 False cs of None \<Rightarrow> Inl ValueError | Some n \<Rightarrow> Inr (int n))
           else
             (case parse_digits 0 False (c # cs) of
                None \<Rightarrow> Inl ValueError | Some n \<Rightarrow> Inr (int n))))"

text \<open>\<open>str(n)\<close> and \<open>f"{n}"\<close> for an integer: decimal digits, a minus sign when negative.\<close>

fun str_nat :: "nat \<Rightarrow> string" where
  "str_nat n =
     (if n < 10 then [''0123456789'' ! n]
      else str_nat (n div 10) @ [''0123456789'' ! (n mod 10)])"

declare str_nat.simps [simp del]

definition str_int :: "int \<Rightarrow> string" where
  "str_int i = (if i < 0 then CHR ''-'' # str_nat (nat (- i)) else str_nat (nat i))"


section \<open>The node's surroundings\<close>

text \<open>
  The account store is a MySQL table reached through SQL statements, the peers are reached
  through sockets, the time comes from \<open>time.time()\<close> and account numbers from
  \<open>random.randint\<close>. None of these is program text of the node, so each is a parameter:
  \<^item> \<open>HOST\<close> and \<open>TIMEOUT\<close> are the values of config.py;
  \<^item> \<open>clock k\<close> is what the \<open>k\<close>-th call of \<open>time.time()\<close> returns (a real number stands
    for the float);
  \<^item> \<open>entropy k\<close> drives the \<open>k\<close>-th call of \<open>random.randint\<close>;
  \<^item> \<open>peer k ip port timeout data\<close> is the outcome of the \<open>k\<close>-th connection attempt, made
    to \<open>ip:port\<close> with that timeout and that text sent: the text received, or \<open>None\<close> when
    connecting, sending, receiving or decoding raised;
  \<^item> the \<open>sql_\<close> fields run one statement of account_repository.py on the database
    \<open>'s\<close>, with \<open>Inl\<close> for an exception of \<open>connect\<close>, \<open>cursor\<close>, \<open>execute\<close>, \<open>commit\<close>
    or \<open>fetchone\<close>; a statement that raised leaves the database as it was.
\<close>

text \<open>
  One connection attempt of the forwarder, as it is logged: where to, with which timeout,
  what was sent, how much of the budget had elapsed at the check before it, and its outcome.
\<close>

record attempt =
  a_ip :: string
  a_port :: nat
  a_timeout :: real
  a_data :: string
  a_elapsed :: real
  a_result :: "string option"

record 's env =
  HOST :: string
  TIMEOUT :: real
  clock :: "nat \<Rightarrow> real"
  entropy :: "nat \<Rightarrow> nat"
  peer :: "nat \<Rightarrow> string \<Rightarrow> nat \<Rightarrow> real \<Rightarrow> string \<Rightarrow> string option"
  sql_insert :: "int \<Rightarrow> string \<Rightarrow> int \<Rightarrow> 's \<Rightarrow> py_exn + 's"
  sql_select_balance :: "string \<Rightarrow> 's \<Rightarrow> py_exn + int option"
  sql_update_add :: "int \<Rightarrow> int \<Rightarrow> 's \<Rightarrow> py_exn + (nat \<times> 's)"
  sql_update_sub :: "int \<Rightarrow> int \<Rightarrow> 's \<Rightarrow> py_exn + (nat \<times> 's)"
  sql_delete_zero :: "int \<Rightarrow> 's \<Rightarrow> py_exn + (nat \<times> 's)"
  sql_select_sum :: "'s \<Rightarrow> py_exn + int option"
  sql_select_count :: "'s \<Rightarrow> py_exn + int"
  sql_select_count_where :: "int \<Rightarrow> 's \<Rightarrow> py_exn + int"

text \<open>
  The world is what a command can change or consume: the database, and a record of what
  was invoked (the repository methods called, the forwarder's invocations and its
  connection attempts, the number of clock readings and of random draws so far).
\<close>

datatype store_call =
    CreateAccount int string
  | GetBalance string
  | Deposit string int
  | Withdraw string int
  | Remove string
  | GetTotalBalance
  | CountAccounts
  | AccountExists int

record 's world =
  db :: 's
  store_log :: "store_call list"
  fwd_log :: "(string \<times> string) list"
  net_log :: "attempt list"
  ticks :: nat
  draws :: nat

definition time_time :: "'s env \<Rightarrow> 's world \<Rightarrow> real \<times> 's world" where
  "time_time env w = (clock env (ticks w), w\<lparr>ticks := Suc (ticks w)\<rparr>)"

text \<open>\<open>random.randint(lo, hi)\<close>: some integer of the closed range, chosen by the entropy.\<close>

definition randint :: "'s env \<Rightarrow> int \<Rightarrow> int \<Rightarrow> 's world \<Rightarrow> int \<times> 's world" where
  "randint env lo hi w =
     (lo + int (entropy env (draws w) mod nat (hi - lo + 1)), w\<lparr>draws := Suc (draws w)\<rparr>)"


section \<open>account\_repository.py\<close>

text \<open>
  Every method runs its statement inside \<open>try\<close> and turns any exception into \<open>False\<close> or
  \<open>None\<close>. \<open>deposit\<close>, \<open>withdraw\<close> and \<open>remove\<close> convert the account number with \<open>int\<close>
  inside that \<open>try\<close>.
\<close>

definition called :: "store_call \<Rightarrow> 's world \<Rightarrow> 's world" where
  "called c w = w\<lparr>store_log := store_log w @ [c]\<rparr>"

definition repo_create_account :: "'s env \<Rightarrow> int \<Rightarrow> string \<Rightarrow> 's world \<Rightarrow> bool \<times> 's world" where
  "repo_create_account env account_number ip_address w =
     (let w1 = called (CreateAccount account_number ip_address) w in
      case sql_insert env account_number ip_address 0 (db w1) of
        Inl e \<Rightarrow> (False, w1)
      | Inr d \<Rightarrow> (True, w1\<lparr>db := d\<rparr>))"

definition repo_get_balance :: "'s env \<Rightarrow> string \<Rightarrow> 's world \<Rightarrow> int option \<times> 's world" where
  "repo_get_balance env account_number w =
     (let w1 = called (GetBalance account_number) w in
      case sql_select_balance env account_number (db w1) of
        Inl e \<Rightarrow> (None, w1)
      | Inr balance \<Rightarrow> (balance, w1))"

definition repo_deposit :: "'s env \<Rightarrow> string \<Rightarrow> int \<Rightarrow> 's world \<Rightarrow> bool \<times> 's world" where
  "repo_deposit env account_number amount w =
     (let w1 = called (Deposit account_number amount) w in
      case py_int account_number of
        Inl e \<Rightarrow> (False, w1)
      | Inr n \<Rightarrow>
          (case sql_update_add env amount n (db w1) of
             Inl e \<Rightarrow> (False, w1)
           | Inr (rowcount, d) \<Rightarrow> (rowcount > 0, w1\<lparr>db := d\<rparr>)))"

definition repo_withdraw :: "'s env \<Rightarrow> string \<Rightarrow> int \<Rightarrow> 's world \<Rightarrow> bool \<times> 's world" where
  "repo_withdraw env account_number amount w =
     (let w1 = called (Withdraw account_number amount) w in
      case py_int account_number of
        Inl e \<Rightarrow> (False, w1)
      | Inr n \<Rightarrow>
          (case sql_update_sub env amount n (db w1) of
             Inl e \<Rightarrow> (False, w1)
           | Inr (rowcount, d) \<Rightarrow> (rowcount > 0, w1\<lparr>db := d\<rparr>)))"

definition repo_remove :: "'s env \<Rightarrow> string \<Rightarrow> 's world \<Rightarrow> bool \<times> 's world" where
  "repo_remove env account_number w =
     (let w1 = called (Remove account_number) w in
      case py_int account_number of
        Inl e \<Rightarrow> (False, w1)
      | Inr n \<Rightarrow>
          (case sql_delete_zero env n (db w1) of
             Inl e \<Rightarrow> (False, w1)
           | Inr (rowcount, d) \<Rightarrow> (rowcount > 0, w1\<lparr>db := d\<rparr>)))"

text \<open>\<open>cursor.fetchone()[0] or 0\<close>: a NULL sum (no rows) and a zero sum both give 0.\<close>

definition repo_get_total_balance :: "'s env \<Rightarrow> 's world \<Rightarrow> int option \<times> 's world" where
  "repo_get_total_balance env w =
     (let w1 = called GetTotalBalance w in
      case sql_select_sum env (db w1) of
        Inl e \<Rightarrow> (None, w1)
      | Inr None \<Rightarrow> (Some 0, w1)
      | Inr (Some total_balance) \<Rightarrow> (Some total_balance, w1))"

definition repo_count_accounts :: "'s env \<Rightarrow> 's world \<Rightarrow> int option \<times> 's world" where
  "repo_count_accounts env w =
     (let w1 = called CountAccounts w in
      case sql_select_count env (db w1) of
        Inl e \<Rightarrow> (None, w1)
      | Inr n \<Rightarrow> (Some n, w1))"

definition repo_account_exists :: "'s env \<Rightarrow> int \<Rightarrow> 's world \<Rightarrow> bool \<times> 's world" where
  "repo_account_exists env account_number w =
     (let w1 = called (AccountExists account_number) w in
      case sql_select_count_where env account_number (db w1) of
        Inl e \<Rightarrow> (False, w1)
      | Inr n \<Rightarrow> (n > 0, w1))"


section \<open>server.py: BankServer\<close>

definition get_local_ip :: "'s env \<Rightarrow> string" where
  "get_local_ip env = HOST env"

text \<open>
  \<open>create_account\<close>: the loop \<open>for i in range(5)\<close>, with the number of rounds left as the
  argument of the recursion.
\<close>

fun create_loop :: "'s env \<Rightarrow> string \<Rightarrow> nat \<Rightarrow> 's world \<Rightarrow> string \<times> 's world" where
  "create_loop env ip_address 0 w = (''ER Unable to create account'', w)"
| "create_loop env ip_address (Suc k) w =
     (let (account_number, w1) = randint env 10000 99999 w;
          (ex, w2) = repo_account_exists env account_number w1
      in if \<not> ex then
           (let (success, w3) = repo_create_account env account_number ip_address w2
            in if success then (''AC '' @ str_int account_number @ ''/'' @ ip_address, w3)
               else (''ER Database error'', w3))
         else create_loop env ip_address k w2)"

definition create_account :: "'s env \<Rightarrow> string \<Rightarrow> 's world \<Rightarrow> string \<times> 's world" where
  "create_account env ip_address w = create_loop env ip_address 5 w"

text \<open>
  \<open>forward_to_peer\<close>: \<open>possible_ports = range(65525, 65536)\<close>; the loop reads the clock
  before each attempt, and every attempt is made with \<open>timeout=TIMEOUT\<close>. The attempt is
  logged with the elapsed time that the check before it computed and with its outcome.
\<close>

definition possible_ports :: "nat list" where
  "possible_ports = [65525..<65536]"

fun forward_loop ::
  "'s env \<Rightarrow> string \<Rightarrow> string \<Rightarrow> real \<Rightarrow> nat list \<Rightarrow> 's world \<Rightarrow> string \<times> 's world" where
  "forward_loop env peer_ip command start_time [] w = (''ER Peer connection failed'', w)"
| "forward_loop env peer_ip command start_time (peer_port # ports) w =
     (let (now, w1) = time_time env w in
      if now - start_time > TIMEOUT env then (''ER Request timeout'', w1)
      else
        (let result = peer env (length (net_log w1)) peer_ip peer_port (TIMEOUT env)
                        (command @ [CHR 0x0A]);
             w2 = w1\<lparr>net_log := net_log w1 @
                    [\<lparr>a_ip = peer_ip, a_port = peer_port, a_timeout = TIMEOUT env,
                      a_data = command @ [CHR 0x0A], a_elapsed = now - start_time,
                      a_result = result\<rparr>]\<rparr>
         in case result of
              Some response \<Rightarrow> (py_strip response, w2)
            | None \<Rightarrow> forward_loop env peer_ip command start_time ports w2))"

definition forward_to_peer :: "'s env \<Rightarrow> string \<Rightarrow> string \<Rightarrow> 's world \<Rightarrow> string \<times> 's world" where
  "forward_to_peer env peer_ip command w =
     (let w0 = w\<lparr>fwd_log := fwd_log w @ [(peer_ip, command)]\<rparr>;
          (start_time, w1) = time_time env w0
      in forward_loop env peer_ip command start_time possible_ports w1)"


section \<open>commands.py: CommandHandler\<close>

text \<open>
  A handler returns its response, or \<open>Inl\<close> the exception it lets through.
  \<open>except ValueError\<close> catches that exception only.
\<close>

definition except_ValueError :: "py_exn \<Rightarrow> string \<Rightarrow> py_exn + string" where
  "except_ValueError e response = (if e = ValueError then Inr response else Inl e)"

definition handle_bc :: "'s env \<Rightarrow> 's world \<Rightarrow> (py_exn + string) \<times> 's world" where
  "handle_bc env w = (Inr (''BC '' @ get_local_ip env), w)"

definition handle_ac :: "'s env \<Rightarrow> string \<Rightarrow> 's world \<Rightarrow> (py_exn + string) \<times> 's world" where
  "handle_ac env ip_address w =
     (let (response, w1) = create_account env ip_address w in (Inr response, w1))"

definition handle_ad :: "'s env \<Rightarrow> string list \<Rightarrow> 's world \<Rightarrow> (py_exn + string) \<times> 's world" where
  "handle_ad env parts w =
     (if length parts \<noteq> 3 then (Inr ''ER Invalid AD format'', w)
      else
        (case py_int (parts ! 2) of
           Inl e \<Rightarrow> (except_ValueError e ''ER Invalid deposit format'', w)
         | Inr amount \<Rightarrow>
             (case unpack2 (split_on CHR ''/'' (parts ! 1)) of
                Inl e \<Rightarrow> (except_ValueError e ''ER Invalid deposit format'', w)
              | Inr (account_number, bank_ip) \<Rightarrow>
                  if bank_ip \<noteq> get_local_ip env then
                    (let (response, w1) =
                       forward_to_peer env bank_ip
                         (''AD '' @ account_number @ ''/'' @ bank_ip @ '' '' @ str_int amount) w
                     in (Inr response, w1))
                  else
                    (let (ok, w1) = repo_deposit env account_number amount w
                     in (Inr (if ok then ''AD'' else ''ER Deposit failed''), w1)))))"

definition handle_aw :: "'s env \<Rightarrow> string list \<Rightarrow> 's world \<Rightarrow> (py_exn + string) \<times> 's world" where
  "handle_aw env parts w =
     (if length parts \<noteq> 3 then (Inr ''ER Invalid AW format'', w)
      else
        (case py_int (parts ! 2) of
           Inl e \<Rightarrow> (except_ValueError e ''ER Invalid withdrawal format'', w)
         | Inr amount \<Rightarrow>
             (case unpack2 (split_on CHR ''/'' (parts ! 1)) of
                Inl e \<Rightarrow> (except_ValueError e ''ER Invalid withdrawal format'', w)
              | Inr (account_number, bank_ip) \<Rightarrow>
                  if bank_ip \<noteq> get_local_ip env then
                    (let (response, w1) =
                       forward_to_peer env bank_ip
                         (''AW '' @ account_number @ ''/'' @ bank_ip @ '' '' @ str_int amount) w
                     in (Inr response, w1))
                  else
                    (let (ok, w1) = repo_withdraw env account_number amount w
                     in (Inr (if ok then ''AW'' else ''ER Not enough funds''), w1)))))"

definition handle_ab :: "'s env \<Rightarrow> string list \<Rightarrow> 's world \<Rightarrow> (py_exn + string) \<times> 's world" where
  "handle_ab env parts w =
     (if length parts \<noteq> 2 then (Inr ''ER Invalid AB format'', w)
      else
        (case unpack2 (split_on CHR ''/'' (parts ! 1)) of
           Inl e \<Rightarrow> (except_ValueError e ''ER Invalid account format'', w)
         | Inr (account_number, bank_ip) \<Rightarrow>
             if bank_ip \<noteq> get_local_ip env then
               (let (response, w1) =
                  forward_to_peer env bank_ip (''AB '' @ account_number @ ''/'' @ bank_ip) w
                in (Inr response, w1))
             else
               (let (balance, w1) = repo_get_balance env account_number w
                in (Inr (case balance of
                           Some b \<Rightarrow> ''AB '' @ str_int b
                         | None \<Rightarrow> ''ER Account not found''), w1))))"

definition handle_ar :: "'s env \<Rightarrow> string list \<Rightarrow> 's world \<Rightarrow> (py_exn + string) \<times> 's world" where
  "handle_ar env parts w =
     (if length parts \<noteq> 2 then (Inr ''ER Invalid AR format'', w)
      else
        (case unpack2 (split_on CHR ''/'' (parts ! 1)) of
           Inl e \<Rightarrow> (except_ValueError e ''ER Invalid account format'', w)
         | Inr (account_number, bank_ip) \<Rightarrow>
             if bank_ip \<noteq> get_local_ip env then
               (let (response, w1) =
                  forward_to_peer env bank_ip (''AR '' @ account_number @ ''/'' @ bank_ip) w
                in (Inr response, w1))
             else
               (let (ok, w1) = repo_remove env account_number w
                in (Inr (if ok then ''AR'' else ''ER Cannot remove account''), w1))))"

text \<open>\<open>f"BA {x}"\<close> prints \<open>None\<close> when the repository reported an error.\<close>

definition str_opt_int :: "int option \<Rightarrow> string" where
  "str_opt_int x = (case x of None \<Rightarrow> ''None'' | Some i \<Rightarrow> str_int i)"

definition handle_ba :: "'s env \<Rightarrow> 's world \<Rightarrow> (py_exn + string) \<times> 's world" where
  "handle_ba env w =
     (let (total_balance, w1) = repo_get_total_balance env w
      in (Inr (''BA '' @ str_opt_int total_balance), w1))"

definition handle_bn :: "'s env \<Rightarrow> 's world \<Rightarrow> (py_exn + string) \<times> 's world" where
  "handle_bn env w =
     (let (n, w1) = repo_count_accounts env w in (Inr (''BN '' @ str_opt_int n), w1))"

text \<open>The body of the \<open>try\<close> of \<open>process_command\<close>: the chain of comparisons on the verb.\<close>

definition dispatch ::
  "'s env \<Rightarrow> string \<Rightarrow> string list \<Rightarrow> string \<times> nat \<Rightarrow> 's world \<Rightarrow> (py_exn + string) \<times> 's world" where
  "dispatch env cmd parts address w =
     (if cmd = ''BC'' then handle_bc env w
      else if cmd = ''AC'' then handle_ac env (fst address) w
      else if cmd = ''AD'' then handle_ad env parts w
      else if cmd = ''AW'' then handle_aw env parts w
      else if cmd = ''AB'' then handle_ab env parts w
      else if cmd = ''AR'' then handle_ar env parts w
      else if cmd = ''BA'' then handle_ba env w
      else if cmd = ''BN'' then handle_bn env w
      else (Inr ''ER Unknown command'', w))"

text \<open>
  \<open>process_command\<close>: \<open>Inl\<close> would be an exception reaching the caller; \<open>except Exception\<close>
  turns whatever the body raises into the internal-error response.
\<close>

definition process_command ::
  "'s env \<Rightarrow> string \<Rightarrow> string \<times> nat \<Rightarrow> 's world \<Rightarrow> (py_exn + string) \<times> 's world" where
  "process_command env command address w =
     (let parts = py_split (py_strip command) in
      if parts = [] then (Inr ''ER Invalid command'', w)
      else
        (let cmd = py_upper (parts ! 0) in
         case dispatch env cmd parts address w of
           (Inl e, w1) \<Rightarrow> (Inr ''ER Internal processing error'', w1)
         | (Inr response, w1) \<Rightarrow> (Inr response, w1)))"

text \<open>
  \<open>handle_client\<close>, for one line taken from the buffer: a blank line sends nothing;
  otherwise the clock is read before and after \<open>process_command\<close> and the text handed to
  \<open>sendall\<close> is returned. \<open>Inl\<close> is an exception leaving the loop.
\<close>

definition handle_line ::
  "'s env \<Rightarrow> string \<times> nat \<Rightarrow> string \<Rightarrow> 's world \<Rightarrow> (py_exn + string option) \<times> 's world" where
  "handle_line env address line w =
     (let command = py_strip line in
      if command = [] then (Inr None, w)
      else
        (let (start_time, w1) = time_time env w in
         case process_command env command address w1 of
           (Inl e, w2) \<Rightarrow> (Inl e, w2)
         | (Inr response, w2) \<Rightarrow>
             (let (now, w3) = time_time env w2;
                  response' = (if now - start_time > TIMEOUT env
                               then ''ER Processing timeout'' else response)
              in (Inr (Some (response' @ [CHR 0x0A])), w3))))"


section \<open>A database for the examples\<close>

text \<open>
  An in-memory table of rows (account number, address, balance) on which the statements of
  account_repository.py are run; the examples below use it. \<open>rowcount\<close> is the number of
  rows the statement's \<open>WHERE\<close> selects. A text compared with the numeric column matches
  when \<open>int\<close> reads it as that number.
\<close>

type_synonym table = "(int \<times> string \<times> int) list"

definition tbl_insert :: "int \<Rightarrow> string \<Rightarrow> int \<Rightarrow> table \<Rightarrow> py_exn + table" where
  "tbl_insert n ip b t = (if n \<in> fst ` set t then Inl DatabaseError else Inr (t @ [(n, ip, b)]))"

definition tbl_balance :: "string \<Rightarrow> table \<Rightarrow> py_exn + int option" where
  "tbl_balance s t =
     (case py_int s of
        Inl e \<Rightarrow> Inr None
      | Inr n \<Rightarrow> Inr (map_option snd (map_of t n)))"

definition tbl_add :: "int \<Rightarrow> int \<Rightarrow> table \<Rightarrow> py_exn + (nat \<times> table)" where
  "tbl_add amount n t =
     Inr (length (filter (\<lambda>r. fst r = n) t),
          map (\<lambda>(k, ip, b). if k = n then (k, ip, b + amount) else (k, ip, b)) t)"

definition tbl_sub :: "int \<Rightarrow> int \<Rightarrow> table \<Rightarrow> py_exn + (nat \<times> table)" where
  "tbl_sub amount n t =
     Inr (length (filter (\<lambda>(k, ip, b). k = n \<and> b \<ge> amount) t),
          map (\<lambda>(k, ip, b). if k = n \<and> b \<ge> amount then (k, ip, b - amount) else (k, ip, b)) t)"

definition tbl_delete_zero :: "int \<Rightarrow> table \<Rightarrow> py_exn + (nat \<times> table)" where
  "tbl_delete_zero n t =
     Inr (length (filter (\<lambda>(k, ip, b). k = n \<and> b = 0) t),
          filter (\<lambda>(k, ip, b). \<not> (k = n \<and> b = 0)) t)"

definition tbl_sum :: "table \<Rightarrow> py_exn + int option" where
  "tbl_sum t = Inr (if t = [] then None else Some (sum_list (map (\<lambda>(k, ip, b). b) t)))"

definition tbl_count :: "table \<Rightarrow> py_exn + int" where
  "tbl_count t = Inr (int (length t))"

definition tbl_count_where :: "int \<Rightarrow> table \<Rightarrow> py_exn + int" where
  "tbl_count_where n t = Inr (int (length (filter (\<lambda>r. fst r = n) t)))"

definition table_env ::
  "string \<Rightarrow> real \<Rightarrow> (nat \<Rightarrow> real) \<Rightarrow> (nat \<Rightarrow> nat) \<Rightarrow>
   (nat \<Rightarrow> string \<Rightarrow> nat \<Rightarrow> real \<Rightarrow> string \<Rightarrow> string option) \<Rightarrow> table env" where
  "table_env host timeout clk ent net =
     \<lparr>HOST = host, TIMEOUT = timeout, clock = clk, entropy = ent, peer = net,
      sql_insert = tbl_insert, sql_select_balance = tbl_balance,
      sql_update_add = tbl_add, sql_update_sub = tbl_sub,
      sql_delete_zero = tbl_delete_zero, sql_select_sum = tbl_sum,
      sql_select_count = tbl_count, sql_select_count_where = tbl_count_where\<rparr>"

definition fresh :: "table \<Rightarrow> table world" where
  "fresh t = \<lparr>db = t, store_log = [], fwd_log = [], net_log = [], ticks = 0, draws = 0\<rparr>"


definition example_env ::
  "(nat \<Rightarrow> real) \<Rightarrow> (nat \<Rightarrow> string \<Rightarrow> nat \<Rightarrow> real \<Rightarrow> string \<Rightarrow> string option) \<Rightarrow>
   table env" where
  "example_env clk net = table_env ''127.0.0.1'' 5 clk (\<lambda>k. 2345) net"

definition silent :: "nat \<Rightarrow> string \<Rightarrow> nat \<Rightarrow> real \<Rightarrow> string \<Rightarrow> string option" where
  "silent k ip port timeout data = None"

definition answers ::
  "string \<Rightarrow> nat \<Rightarrow> string \<Rightarrow> nat \<Rightarrow> real \<Rightarrow> string \<Rightarrow> string option" where
  "answers r k ip port timeout data = Some r"

definition client :: "string \<times> nat" where
  "client = (''10.0.0.9'', 4000)"


section \<open>Auxiliary facts\<close>

lemma py_int_cases: "py_int s = Inl ValueError \<or> (\<exists>a. py_int s = Inr a)"
  by (auto simp: py_int_def split: list.splits option.splits)

lemma unpack2_cases:
  "unpack2 xs = Inl ValueError \<or> (\<exists>a b. xs = [a, b] \<and> unpack2 xs = Inr (a, b))"
  by (cases xs rule: unpack2.cases) auto

text \<open>The forwarder touches neither the database nor the repository.\<close>

lemma forward_loop_keeps:
  "db (snd (forward_loop env ip c st ports w)) = db w \<and>
   store_log (snd (forward_loop env ip c st ports w)) = store_log w \<and>
   fwd_log (snd (forward_loop env ip c st ports w)) = fwd_log w \<and>
   draws (snd (forward_loop env ip c st ports w)) = draws w"
proof (induction ports arbitrary: w)
  case Nil
  show ?case by simp
next
  case (Cons p ps)
  show ?case
    by (simp add: time_time_def Let_def Cons split: option.split)
qed

lemma forward_to_peer_keeps:
  "db (snd (forward_to_peer env ip c w)) = db w \<and>
   store_log (snd (forward_to_peer env ip c w)) = store_log w \<and>
   fwd_log (snd (forward_to_peer env ip c w)) = fwd_log w @ [(ip, c)] \<and>
   draws (snd (forward_to_peer env ip c w)) = draws w"
  by (simp add: forward_to_peer_def time_time_def Let_def forward_loop_keeps)

text \<open>No handler lets an exception through: each catches what its body can raise.\<close>

lemma handle_ad_Inr: "\<exists>r. fst (handle_ad env parts w) = Inr r"
  using py_int_cases [of "parts ! 2"] unpack2_cases [of "split_on CHR ''/'' (parts ! 1)"]
  by (auto simp: handle_ad_def except_ValueError_def Let_def split: prod.splits)

lemma handle_aw_Inr: "\<exists>r. fst (handle_aw env parts w) = Inr r"
  using py_int_cases [of "parts ! 2"] unpack2_cases [of "split_on CHR ''/'' (parts ! 1)"]
  by (auto simp: handle_aw_def except_ValueError_def Let_def split: prod.splits)

lemma handle_ab_Inr: "\<exists>r. fst (handle_ab env parts w) = Inr r"
  using unpack2_cases [of "split_on CHR ''/'' (parts ! 1)"]
  by (auto simp: handle_ab_def except_ValueError_def Let_def split: prod.splits)

lemma handle_ar_Inr: "\<exists>r. fst (handle_ar env parts w) = Inr r"
  using unpack2_cases [of "split_on CHR ''/'' (parts ! 1)"]
  by (auto simp: handle_ar_def except_ValueError_def Let_def split: prod.splits)

lemma dispatch_Inr: "\<exists>r. fst (dispatch env cmd parts address w) = Inr r"
  using handle_ad_Inr [of env parts w] handle_aw_Inr [of env parts w]
        handle_ab_Inr [of env parts w] handle_ar_Inr [of env parts w]
  by (auto simp: dispatch_def handle_bc_def handle_ac_def handle_ba_def handle_bn_def
           split: prod.splits)



lemma process_command_tokens:
  assumes "py_split (py_strip command) = v # args"
  shows "process_command env command address w =
           (Inr (case fst (dispatch env (py_upper v) (v # args) address w) of
                   Inl e \<Rightarrow> ''ER Internal processing error'' | Inr r \<Rightarrow> r),
            snd (dispatch env (py_upper v) (v # args) address w))"
  using assms by (simp add: process_command_def split: prod.splits sum.splits)

lemma process_command_dispatch:
  assumes "py_split (py_strip command) = v # args"
  shows "process_command env command address w = dispatch env (py_upper v) (v # args) address w"
proof -
  obtain r where "fst (dispatch env (py_upper v) (v # args) address w) = Inr r"
    using dispatch_Inr by blast
  then show ?thesis
    using process_command_tokens [OF assms, of env address w]
    by (metis prod.collapse sum.simps(6))
qed

lemma create_loop_numeral:
  "create_loop env ip_address (numeral n) w =
     (case randint env 10000 99999 w of (account_number, w1) \<Rightarrow>
      case repo_account_exists env account_number w1 of (ex, w2) \<Rightarrow>
        if \<not> ex then
          (case repo_create_account env account_number ip_address w2 of (success, w3) \<Rightarrow>
             if success then (''AC '' @ str_int account_number @ ''/'' @ ip_address, w3)
             else (''ER Database error'', w3))
        else create_loop env ip_address (pred_numeral n) w2)"
  by (simp add: numeral_eq_Suc split: prod.splits)

lemma possible_ports_list:
  "possible_ports = [65525, 65526, 65527, 65528, 65529, 65530, 65531, 65532, 65533, 65534, 65535]"
  by (simp add: possible_ports_def upt_rec)

text \<open>Equations for running the definitions on the examples.\<close>

lemmas tokens = py_split_def py_strip_def py_isspace_def py_upper_def upper_char_def
  py_int_def digit_val_def

lemmas run = tokens example_env_def table_env_def fresh_def client_def silent_def
  process_command_def dispatch_def handle_bc_def handle_ac_def handle_ad_def handle_aw_def
  handle_ab_def handle_ar_def handle_ba_def handle_bn_def get_local_ip_def
  repo_create_account_def repo_get_balance_def repo_deposit_def repo_withdraw_def
  repo_remove_def repo_get_total_balance_def repo_count_accounts_def repo_account_exists_def
  called_def create_account_def create_loop_numeral randint_def time_time_def
  forward_to_peer_def possible_ports_list str_int_def str_opt_int_def str_nat.simps
  tbl_insert_def tbl_balance_def tbl_add_def tbl_sub_def tbl_delete_zero_def tbl_sum_def
  tbl_count_def tbl_count_where_def except_ValueError_def handle_line_def


section \<open>Argument counts\<close>

text \<open>
  Claim C6, as amended. A line without a token gets \<open>ER Invalid command\<close>. When the first
  token, in upper case, is AD or AW and the number of arguments is not two, or is AB or AR
  and the number of arguments is not one, the response is that verb's format error and the
  world is unchanged. A first token that is none of the eight verbs gets
  \<open>ER Unknown command\<close>. For BC, AC, BA and BN the arguments are not looked at: the response
  and the effect are those of the verb alone, whatever follows it on the line.
\<close>

theorem arity_errors:
  assumes "py_split (py_strip command) = parts"
  shows "(parts = [] \<longrightarrow> process_command env command address w = (Inr ''ER Invalid command'', w)) \<and>
         (\<forall>v args. parts = v # args \<longrightarrow>
            (py_upper v = ''AD'' \<and> length args \<noteq> 2 \<longrightarrow>
               process_command env command address w = (Inr ''ER Invalid AD format'', w)) \<and>
            (py_upper v = ''AW'' \<and> length args \<noteq> 2 \<longrightarrow>
               process_command env command address w = (Inr ''ER Invalid AW format'', w)) \<and>
            (py_upper v = ''AB'' \<and> length args \<noteq> 1 \<longrightarrow>
               process_command env command address w = (Inr ''ER Invalid AB format'', w)) \<and>
            (py_upper v = ''AR'' \<and> length args \<noteq> 1 \<longrightarrow>
               process_command env command address w = (Inr ''ER Invalid AR format'', w)) \<and>
            (py_upper v \<notin> set [''BC'', ''AC'', ''AD'', ''AW'', ''AB'', ''AR'', ''BA'', ''BN''] \<longrightarrow>
               process_command env command address w = (Inr ''ER Unknown command'', w)) \<and>
            (py_upper v = ''BC'' \<longrightarrow>
               process_command env command address w = (Inr (''BC '' @ HOST env), w)) \<and>
            (py_upper v = ''AC'' \<longrightarrow>
               process_command env command address w =
                 (Inr (fst (create_account env (fst address) w)),
                  snd (create_account env (fst address) w))) \<and>
            (py_upper v = ''BA'' \<longrightarrow>
               process_command env command address w = handle_ba env w) \<and>
            (py_upper v = ''BN'' \<longrightarrow>
               process_command env command address w = handle_bn env w))"
proof (intro conjI allI impI)
  assume "parts = []"
  then show "process_command env command address w = (Inr ''ER Invalid command'', w)"
    using assms by (simp add: process_command_def)
next
  fix v args assume p: "parts = v # args"
  have pc: "process_command env command address w = dispatch env (py_upper v) (v # args) address w"
    using process_command_dispatch assms p by blast
  { assume "py_upper v = ''AD'' \<and> length args \<noteq> 2"
    then show "process_command env command address w = (Inr ''ER Invalid AD format'', w)"
      by (simp add: pc dispatch_def handle_ad_def) }
  { assume "py_upper v = ''AW'' \<and> length args \<noteq> 2"
    then show "process_command env command address w = (Inr ''ER Invalid AW format'', w)"
      by (simp add: pc dispatch_def handle_aw_def) }
  { assume "py_upper v = ''AB'' \<and> length args \<noteq> 1"
    then show "process_command env command address w = (Inr ''ER Invalid AB format'', w)"
      by (simp add: pc dispatch_def handle_ab_def) }
  { assume "py_upper v = ''AR'' \<and> length args \<noteq> 1"
    then show "process_command env command address w = (Inr ''ER Invalid AR format'', w)"
      by (simp add: pc dispatch_def handle_ar_def) }
  { assume "py_upper v \<notin> set [''BC'', ''AC'', ''AD'', ''AW'', ''AB'', ''AR'', ''BA'', ''BN'']"
    then show "process_command env command address w = (Inr ''ER Unknown command'', w)"
      by (simp add: pc dispatch_def) }
  { assume "py_upper v = ''BC''"
    then show "process_command env command address w = (Inr (''BC '' @ HOST env), w)"
      by (simp add: pc dispatch_def handle_bc_def get_local_ip_def) }
  { assume "py_upper v = ''AC''"
    then show "process_command env command address w =
                 (Inr (fst (create_account env (fst address) w)),
                  snd (create_account env (fst address) w))"
      by (simp add: pc dispatch_def handle_ac_def split: prod.splits) }
  { assume "py_upper v = ''BA''"
    then show "process_command env command address w = handle_ba env w"
      by (simp add: pc dispatch_def) }
  { assume "py_upper v = ''BN''"
    then show "process_command env command address w = handle_bn env w"
      by (simp add: pc dispatch_def) }
qed








lemma forward_loop_silent:
  assumes "\<And>k i p t d. peer env k i p t d = None"
  shows "fst (forward_loop env ip c st ports w) \<in> {''ER Request timeout'', ''ER Peer connection failed''}"
  using assms
  by (induction ports arbitrary: w) (simp_all add: time_time_def Let_def)




text \<open>The theorem at five lines: empty, AD with one argument, AB alone, an unknown verb, BC with arguments.\<close>

theorem arity_errors_witness:
  "py_split (py_strip '''') = [] \<and>
   process_command (example_env real silent) '''' client (fresh []) =
     (Inr ''ER Invalid command'', fresh []) \<and>
   py_split (py_strip ''ad 12345/127.0.0.1'') = [''ad'', ''12345/127.0.0.1''] \<and>
   process_command (example_env real silent) ''ad 12345/127.0.0.1'' client (fresh []) =
     (Inr ''ER Invalid AD format'', fresh []) \<and>
   py_split (py_strip ''AB'') = [''AB''] \<and>
   process_command (example_env real silent) ''AB'' client (fresh []) =
     (Inr ''ER Invalid AB format'', fresh []) \<and>
   py_split (py_strip ''HELLO 1'') = [''HELLO'', ''1''] \<and>
   process_command (example_env real silent) ''HELLO 1'' client (fresh []) =
     (Inr ''ER Unknown command'', fresh []) \<and>
   py_split (py_strip ''bc now please'') = [''bc'', ''now'', ''please''] \<and>
   process_command (example_env real silent) ''bc now please'' client (fresh []) =
     (Inr ''BC 127.0.0.1'', fresh [])"
proof -
  have a: "py_split (py_strip '''') = []"
    and b: "py_split (py_strip ''ad 12345/127.0.0.1'') = [''ad'', ''12345/127.0.0.1'']"
    and c: "py_split (py_strip ''AB'') = [''AB'']"
    and d: "py_split (py_strip ''HELLO 1'') = [''HELLO'', ''1'']"
    and e: "py_split (py_strip ''bc now please'') = [''bc'', ''now'', ''please'']"
    by (simp_all add: tokens)
  show ?thesis
    using arity_errors [OF a, of "example_env real silent" client "fresh []"]
          arity_errors [OF b, of "example_env real silent" client "fresh []"]
          arity_errors [OF c, of "example_env real silent" client "fresh []"]
          arity_errors [OF d, of "example_env real silent" client "fresh []"]
          arity_errors [OF e, of "example_env real silent" client "fresh []"]
    by (simp add: a b c d e py_upper_def upper_char_def example_env_def table_env_def)
qed

text \<open>
  Claim C6 as first stated also asks for a format error when tokens follow BC, AC, BA or BN.
  The line \<open>BC extra\<close> is answered with the bank code.
\<close>

theorem extra_tokens_counterexample:
  "process_command (example_env real silent) ''BC extra'' client (fresh []) =
     (Inr ''BC 127.0.0.1'', fresh [])"
  by (simp add: run)

section \<open>Amounts\<close>






section \<open>Account references\<close>

lemma split_on_none: "sep \<notin> set b \<Longrightarrow> split_on sep b = [b]"
  by (induction b) auto

lemma split_on_append: "sep \<notin> set a \<Longrightarrow> split_on sep (a @ sep # b) = a # split_on sep b"
  by (induction a) auto

lemma split_on_one:
  "sep \<notin> set a \<Longrightarrow> sep \<notin> set b \<Longrightarrow> split_on sep (a @ sep # b) = [a, b]"
  by (simp add: split_on_append split_on_none)






section \<open>Forwarding\<close>

lemma str_nat_digits: "set (str_nat n) \<subseteq> set ''0123456789''"
proof (induction n rule: str_nat.induct)
  case (1 n)
  have d: "''0123456789'' ! k \<in> set ''0123456789''" if "k < 10" for k
    using that nth_mem [of k "''0123456789''"] by simp
  show ?case
  proof (cases "n < 10")
    case True
    then show ?thesis using d [of n] by (subst str_nat.simps) simp
  next
    case False
    then show ?thesis using "1.IH" d [of "n mod 10"] by (subst str_nat.simps) simp
  qed
qed

text \<open>
  \<open>int\<close> reads back what \<open>str\<close> writes: the amount in a forwarded command is the amount
  that was parsed from the client's line.
\<close>

lemma digit_val_nth: "d < 10 \<Longrightarrow> digit_val (''0123456789'' ! d) = Some d"
proof -
  assume "d < 10"
  then have "d \<in> {0, 1, 2, 3, 4, 5, 6, 7, 8, 9}" by auto
  then show ?thesis by (auto simp: digit_val_def)
qed

lemma digit_val_digits: "c \<in> set ''0123456789'' \<Longrightarrow> digit_val c \<noteq> None"
  by (auto simp: digit_val_def)

lemma digits_plain:
  "c \<in> set ''0123456789'' \<Longrightarrow> \<not> py_isspace c \<and> c \<noteq> CHR ''-'' \<and> c \<noteq> CHR ''+''"
  by (auto simp: py_isspace_def)

lemma parse_digits_run:
  "\<forall>x \<in> set xs. digit_val x \<noteq> None \<Longrightarrow>
   parse_digits acc prev (xs @ ys) =
     (if xs = [] then parse_digits acc prev ys
      else parse_digits (foldl (\<lambda>v x. 10 * v + the (digit_val x)) acc xs) True ys)"
proof (induction xs arbitrary: acc prev)
  case Nil
  show ?case by simp
next
  case (Cons x xs)
  then obtain d where d: "digit_val x = Some d" by auto
  show ?case using Cons.IH [of "10 * acc + d" True] Cons.prems by (simp add: d)
qed

lemma str_nat_nonempty: "str_nat n \<noteq> []"
  by (subst str_nat.simps) simp

lemma str_nat_value: "foldl (\<lambda>v x. 10 * v + the (digit_val x)) 0 (str_nat n) = n"
proof (induction n rule: str_nat.induct)
  case (1 n)
  show ?case
  proof (cases "n < 10")
    case True
    then show ?thesis by (subst str_nat.simps) (simp add: digit_val_nth)
  next
    case False
    then show ?thesis using "1.IH" by (subst str_nat.simps) (simp add: digit_val_nth)
  qed
qed

lemma parse_str_nat: "parse_digits 0 False (str_nat n) = Some n"
proof -
  have "\<forall>x \<in> set (str_nat n). digit_val x \<noteq> None"
    using str_nat_digits [of n] digit_val_digits by blast
  then show ?thesis
    using parse_digits_run [of "str_nat n" 0 False "[]"]
    by (simp add: str_nat_nonempty str_nat_value)
qed

lemma py_strip_plain: "\<forall>x \<in> set s. \<not> py_isspace x \<Longrightarrow> py_strip s = s"
proof -
  assume a: "\<forall>x \<in> set s. \<not> py_isspace x"
  have keep: "dropWhile py_isspace ys = ys" if "\<forall>y \<in> set ys. \<not> py_isspace y" for ys
    using that by (cases ys) auto
  show ?thesis using a by (simp add: py_strip_def keep)
qed

lemma py_int_str_int: "py_int (str_int a) = Inr a"
proof (cases "a < 0")
  case True
  have plain: "\<forall>x \<in> set (str_nat (nat (- a))). \<not> py_isspace x"
    using str_nat_digits [of "nat (- a)"] digits_plain by blast
  have "\<not> py_isspace CHR ''-''" by (simp add: py_isspace_def)
  then have "py_strip (CHR ''-'' # str_nat (nat (- a))) = CHR ''-'' # str_nat (nat (- a))"
    using plain by (intro py_strip_plain) simp
  then show ?thesis using True by (simp add: py_int_def str_int_def parse_str_nat)
next
  case False
  obtain c cs where cs: "str_nat (nat a) = c # cs"
    using str_nat_nonempty [of "nat a"] by (cases "str_nat (nat a)") auto
  have "c \<in> set ''0123456789''" using str_nat_digits [of "nat a"] cs by auto
  then have c: "c \<noteq> CHR ''-''" "c \<noteq> CHR ''+''" using digits_plain by blast+
  have plain: "\<forall>x \<in> set (str_nat (nat a)). \<not> py_isspace x"
    using str_nat_digits [of "nat a"] digits_plain by blast
  have "py_strip (str_nat (nat a)) = c # cs"
    using plain py_strip_plain cs by metis
  moreover have "parse_digits 0 False (c # cs) = Some (nat a)"
    using parse_str_nat [of "nat a"] cs by simp
  ultimately show ?thesis using False c by (simp add: py_int_def str_int_def)
qed

lemma forward_route:
  assumes "split_on CHR ''/'' ref = [account_number, bank_ip]"
      and "bank_ip \<noteq> HOST env"
      and "(py_split (py_strip command) = [v, ref] \<and>
              (py_upper v = ''AB'' \<or> py_upper v = ''AR'') \<and> tail = []) \<or>
           (py_split (py_strip command) = [v, ref, amt] \<and>
              (py_upper v = ''AD'' \<or> py_upper v = ''AW'') \<and>
              py_int amt = Inr a \<and> tail = '' '' @ str_int a)"
      and "forwarded = py_upper v @ '' '' @ account_number @ ''/'' @ bank_ip @ tail"
  shows "process_command env command address w =
           (Inr (fst (forward_to_peer env bank_ip forwarded w)),
            snd (forward_to_peer env bank_ip forwarded w))"
  using assms
  by (auto simp: process_command_dispatch [of command v] dispatch_def handle_ab_def
        handle_ar_def handle_ad_def handle_aw_def get_local_ip_def Let_def case_prod_unfold)

text \<open>
  Claim C3. On an AB, AR, AD or AW line whose account reference splits into an account
  number and a bank address other than HOST, \<open>process_command\<close> calls the forwarder once,
  for that address, with the verb in upper case, the account number, the bank address and,
  for AD and AW, the decimal text of the integer that the amount token denotes; the
  response is the forwarder's; the repository is not called and the database is unchanged;
  and when no attempt gets an answer the response is one of the forwarder's two ER lines.
\<close>

theorem forwarding:
  assumes "split_on CHR ''/'' ref = [account_number, bank_ip]"
      and "bank_ip \<noteq> HOST env"
      and "(py_split (py_strip command) = [v, ref] \<and>
              (py_upper v = ''AB'' \<or> py_upper v = ''AR'') \<and> tail = []) \<or>
           (py_split (py_strip command) = [v, ref, amt] \<and>
              (py_upper v = ''AD'' \<or> py_upper v = ''AW'') \<and>
              py_int amt = Inr a \<and> tail = '' '' @ str_int a)"
      and "forwarded = py_upper v @ '' '' @ account_number @ ''/'' @ bank_ip @ tail"
  shows "process_command env command address w =
           (Inr (fst (forward_to_peer env bank_ip forwarded w)),
            snd (forward_to_peer env bank_ip forwarded w)) \<and>
         fwd_log (snd (process_command env command address w)) =
           fwd_log w @ [(bank_ip, forwarded)] \<and>
         store_log (snd (process_command env command address w)) = store_log w \<and>
         db (snd (process_command env command address w)) = db w \<and>
         ((\<forall>k i p t d. peer env k i p t d = None) \<longrightarrow>
            fst (process_command env command address w) \<in>
              {Inr ''ER Request timeout'', Inr ''ER Peer connection failed''})"
proof -
  have pc: "process_command env command address w =
           (Inr (fst (forward_to_peer env bank_ip forwarded w)),
            snd (forward_to_peer env bank_ip forwarded w))"
    using assms by (rule forward_route)
  have silent: "(\<forall>k i p t d. peer env k i p t d = None) \<longrightarrow>
      fst (forward_to_peer env bank_ip forwarded w) \<in>
        {''ER Request timeout'', ''ER Peer connection failed''}"
    using forward_loop_silent [of env]
    by (simp add: forward_to_peer_def time_time_def Let_def)
  show ?thesis
    using silent by (auto simp: pc forward_to_peer_keeps)
qed


text \<open>
  The theorem at \<open>aw  12345/10.0.0.9 +50\<close> on the node 127.0.0.1 with no peer answering:
  the forwarder is called with \<open>AW 12345/10.0.0.9 50\<close>.
\<close>

theorem forwarding_witness:
  "split_on CHR ''/'' ''12345/10.0.0.9'' = [''12345'', ''10.0.0.9''] \<and>
   ''10.0.0.9'' \<noteq> HOST (example_env real silent) \<and>
   py_split (py_strip ''aw  12345/10.0.0.9 +50'') = [''aw'', ''12345/10.0.0.9'', ''+50''] \<and>
   py_upper ''aw'' = ''AW'' \<and> py_int ''+50'' = Inr 50 \<and> str_int 50 = ''50'' \<and>
   process_command (example_env real silent) ''aw  12345/10.0.0.9 +50'' client
       (fresh [(12345, ''10.0.0.9'', 100)]) =
     (Inr (fst (forward_to_peer (example_env real silent) ''10.0.0.9'' ''AW 12345/10.0.0.9 50''
                  (fresh [(12345, ''10.0.0.9'', 100)]))),
      snd (forward_to_peer (example_env real silent) ''10.0.0.9'' ''AW 12345/10.0.0.9 50''
             (fresh [(12345, ''10.0.0.9'', 100)]))) \<and>
   fwd_log (snd (process_command (example_env real silent) ''aw  12345/10.0.0.9 +50'' client
                   (fresh [(12345, ''10.0.0.9'', 100)]))) =
     [(''10.0.0.9'', ''AW 12345/10.0.0.9 50'')] \<and>
   store_log (snd (process_command (example_env real silent) ''aw  12345/10.0.0.9 +50'' client
                     (fresh [(12345, ''10.0.0.9'', 100)]))) = [] \<and>
   db (snd (process_command (example_env real silent) ''aw  12345/10.0.0.9 +50'' client
              (fresh [(12345, ''10.0.0.9'', 100)]))) = [(12345, ''10.0.0.9'', 100)] \<and>
   fst (process_command (example_env real silent) ''aw  12345/10.0.0.9 +50'' client
          (fresh [(12345, ''10.0.0.9'', 100)])) \<in>
     {Inr ''ER Request timeout'', Inr ''ER Peer connection failed''}"
proof -
  have a: "split_on CHR ''/'' ''12345/10.0.0.9'' = [''12345'', ''10.0.0.9'']"
    by simp
  have b: "''10.0.0.9'' \<noteq> HOST (example_env real silent)"
    by (simp add: example_env_def table_env_def)
  have c: "(py_split (py_strip ''aw  12345/10.0.0.9 +50'') = [''aw'', ''12345/10.0.0.9''] \<and>
              (py_upper ''aw'' = ''AB'' \<or> py_upper ''aw'' = ''AR'') \<and> '' 50'' = []) \<or>
           (py_split (py_strip ''aw  12345/10.0.0.9 +50'') = [''aw'', ''12345/10.0.0.9'', ''+50''] \<and>
              (py_upper ''aw'' = ''AD'' \<or> py_upper ''aw'' = ''AW'') \<and>
              py_int ''+50'' = Inr 50 \<and> '' 50'' = '' '' @ str_int 50)"
    by (simp add: tokens str_int_def str_nat.simps)
  have d: "''AW 12345/10.0.0.9 50'' = py_upper ''aw'' @ '' '' @ ''12345'' @ ''/'' @ ''10.0.0.9'' @ '' 50''"
    by (simp add: tokens)
  have s: "\<forall>k i p t d. peer (example_env real silent) k i p t d = None"
    by (simp add: example_env_def table_env_def silent_def)
  have e: "py_split (py_strip ''aw  12345/10.0.0.9 +50'') = [''aw'', ''12345/10.0.0.9'', ''+50'']"
    "py_upper ''aw'' = ''AW''" "py_int ''+50'' = Inr 50" "str_int 50 = ''50''"
    by (simp_all add: tokens str_int_def str_nat.simps)
  have f: "fwd_log (fresh [(12345, ''10.0.0.9'', 100)]) = []"
    "store_log (fresh [(12345, ''10.0.0.9'', 100)]) = []"
    "db (fresh [(12345, ''10.0.0.9'', 100)]) = [(12345, ''10.0.0.9'', 100)]"
    by (simp_all add: fresh_def)
  show ?thesis
    using forwarding [OF a b c d, of client "fresh [(12345, ''10.0.0.9'', 100)]"] s b
    by (elim conjE) (simp add: a e f)
qed


section \<open>The peer forwarder\<close>

text \<open>
  What one run of the loop adds to the log of attempts: the attempts go to a prefix of the
  ports in their order, each for the given address, with the whole \<open>TIMEOUT\<close> as timeout,
  with the command and a newline as data, and started when no more than \<open>TIMEOUT\<close> had
  elapsed; and the run ends in one of three ways.
\<close>

lemma forward_loop_trace:
  "\<exists>new. net_log (snd (forward_loop env ip c st ports w)) = net_log w @ new \<and>
     map a_port new = take (length new) ports \<and>
     (\<forall>a \<in> set new. a_ip a = ip \<and> a_timeout a = TIMEOUT env \<and>
                      a_data a = c @ [CHR 0x0A] \<and> a_elapsed a \<le> TIMEOUT env) \<and>
     ((\<exists>r. map a_result new = replicate (length new - 1) None @ [Some r] \<and>
           fst (forward_loop env ip c st ports w) = py_strip r) \<or>
      (map a_result new = replicate (length new) None \<and> length new < length ports \<and>
       fst (forward_loop env ip c st ports w) = ''ER Request timeout'') \<or>
      (map a_result new = replicate (length new) None \<and> length new = length ports \<and>
       fst (forward_loop env ip c st ports w) = ''ER Peer connection failed''))"
proof (induction ports arbitrary: w)
  case Nil
  show ?case by simp
next
  case (Cons p ps)
  define w1 where "w1 = w\<lparr>ticks := Suc (ticks w)\<rparr>"
  define now where "now = clock env (ticks w)"
  define res where "res = peer env (length (net_log w)) ip p (TIMEOUT env) (c @ [CHR 0x0A])"
  define a where "a = \<lparr>a_ip = ip, a_port = p, a_timeout = TIMEOUT env,
                        a_data = c @ [CHR 0x0A], a_elapsed = now - st, a_result = res\<rparr>"
  define w2 where "w2 = w1\<lparr>net_log := net_log w1 @ [a]\<rparr>"
  have unfold: "forward_loop env ip c st (p # ps) w =
      (if now - st > TIMEOUT env then (''ER Request timeout'', w1)
       else case res of Some response \<Rightarrow> (py_strip response, w2)
            | None \<Rightarrow> forward_loop env ip c st ps w2)"
    by (simp add: time_time_def w1_def now_def res_def a_def w2_def Let_def split: option.split)
  show ?case
  proof (cases "now - st > TIMEOUT env")
    case True
    then show ?thesis by (simp only: unfold) (simp add: w1_def)
  next
    case False
    note within = this
    show ?thesis
    proof (cases res)
      case (Some r)
      have "net_log w2 = net_log w @ [a]" by (simp add: w2_def w1_def)
      moreover have "map a_port [a] = take (length [a]) (p # ps)" by (simp add: a_def)
      moreover have "\<forall>x \<in> set [a]. a_ip x = ip \<and> a_timeout x = TIMEOUT env \<and>
                      a_data x = c @ [CHR 0x0A] \<and> a_elapsed x \<le> TIMEOUT env"
        using within by (simp add: a_def)
      moreover have "map a_result [a] = replicate (length [a] - 1) None @ [Some r]"
        by (simp add: a_def Some)
      ultimately show ?thesis
        using within Some by (simp only: unfold) (intro exI [of _ "[a]"], simp)
    next
      case None
      from Cons.IH [of w2] obtain new where
        n1: "net_log (snd (forward_loop env ip c st ps w2)) = net_log w2 @ new" and
        n2: "map a_port new = take (length new) ps" and
        n3: "\<forall>a \<in> set new. a_ip a = ip \<and> a_timeout a = TIMEOUT env \<and>
                      a_data a = c @ [CHR 0x0A] \<and> a_elapsed a \<le> TIMEOUT env" and
        n4: "(\<exists>r. map a_result new = replicate (length new - 1) None @ [Some r] \<and>
                 fst (forward_loop env ip c st ps w2) = py_strip r) \<or>
             (map a_result new = replicate (length new) None \<and> length new < length ps \<and>
              fst (forward_loop env ip c st ps w2) = ''ER Request timeout'') \<or>
             (map a_result new = replicate (length new) None \<and> length new = length ps \<and>
              fst (forward_loop env ip c st ps w2) = ''ER Peer connection failed'')"
        by blast
      have eq: "forward_loop env ip c st (p # ps) w = forward_loop env ip c st ps w2"
        using within None by (simp only: unfold) simp
      have m1: "net_log (snd (forward_loop env ip c st ps w2)) = net_log w @ (a # new)"
        using n1 by (simp add: w2_def w1_def)
      have m2: "map a_port (a # new) = take (length (a # new)) (p # ps)"
        using n2 by (simp add: a_def)
      have m3: "\<forall>x \<in> set (a # new). a_ip x = ip \<and> a_timeout x = TIMEOUT env \<and>
                      a_data x = c @ [CHR 0x0A] \<and> a_elapsed x \<le> TIMEOUT env"
        using n3 within by (simp add: a_def)
      have ra: "a_result a = None" by (simp add: a_def None)
      have m4: "(\<exists>r. map a_result (a # new) = replicate (length (a # new) - 1) None @ [Some r] \<and>
                 fst (forward_loop env ip c st ps w2) = py_strip r) \<or>
             (map a_result (a # new) = replicate (length (a # new)) None \<and>
              length (a # new) < length (p # ps) \<and>
              fst (forward_loop env ip c st ps w2) = ''ER Request timeout'') \<or>
             (map a_result (a # new) = replicate (length (a # new)) None \<and>
              length (a # new) = length (p # ps) \<and>
              fst (forward_loop env ip c st ps w2) = ''ER Peer connection failed'')"
        using n4
      proof (elim disjE exE conjE)
        fix r
        assume r: "map a_result new = replicate (length new - 1) None @ [Some r]"
           and f: "fst (forward_loop env ip c st ps w2) = py_strip r"
        from r have "new \<noteq> []" by auto
        then have "length new = Suc (length new - 1)" by simp
        then have "replicate (length (a # new) - 1) None =
                   None # replicate (length new - 1) (None :: string option)"
          by (metis length_Cons diff_Suc_1 replicate_Suc)
        then have "map a_result (a # new) = replicate (length (a # new) - 1) None @ [Some r]"
          using r ra by simp
        then show ?thesis using f by auto
      next
        assume "map a_result new = replicate (length new) None" "length new < length ps"
               "fst (forward_loop env ip c st ps w2) = ''ER Request timeout''"
        then show ?thesis using ra by simp
      next
        assume "map a_result new = replicate (length new) None" "length new = length ps"
               "fst (forward_loop env ip c st ps w2) = ''ER Peer connection failed''"
        then show ?thesis using ra by simp
      qed
      from m1 m2 m3 m4 show ?thesis unfolding eq by blast
    qed
  qed
qed


lemma forward_to_peer_trace:
  "\<exists>new. net_log (snd (forward_to_peer env ip c w)) = net_log w @ new \<and>
     map a_port new = take (length new) possible_ports \<and>
     (\<forall>a \<in> set new. a_ip a = ip \<and> a_timeout a = TIMEOUT env \<and>
                      a_data a = c @ [CHR 0x0A] \<and> a_elapsed a \<le> TIMEOUT env) \<and>
     ((\<exists>r. map a_result new = replicate (length new - 1) None @ [Some r] \<and>
           fst (forward_to_peer env ip c w) = py_strip r) \<or>
      (map a_result new = replicate (length new) None \<and> length new < length possible_ports \<and>
       fst (forward_to_peer env ip c w) = ''ER Request timeout'') \<or>
      (map a_result new = replicate (length new) None \<and> length new = length possible_ports \<and>
       fst (forward_to_peer env ip c w) = ''ER Peer connection failed''))"
  using forward_loop_trace [of env ip c "clock env (ticks w)" possible_ports
          "w\<lparr>fwd_log := fwd_log w @ [(ip, c)], ticks := Suc (ticks w)\<rparr>"]
  by (simp add: forward_to_peer_def time_time_def)


text \<open>
  Claim C4, as amended. When the elapsed time read before an attempt exceeds \<open>TIMEOUT\<close>,
  the loop returns \<open>ER Request timeout\<close> at once: the clock has been read once more and no
  attempt has been added. Every attempt that is made, by the loop from any state and by
  \<open>forward_to_peer\<close>, starts when at most \<open>TIMEOUT\<close> has elapsed, and its connection timeout
  is the whole of \<open>TIMEOUT\<close>, whatever has elapsed.
\<close>

theorem budget_check:
  "(ports \<noteq> [] \<and> clock env (ticks w) - start_time > TIMEOUT env \<longrightarrow>
      forward_loop env ip c start_time ports w =
        (''ER Request timeout'', w\<lparr>ticks := Suc (ticks w)\<rparr>)) \<and>
   (\<forall>a \<in> set (drop (length (net_log w))
                  (net_log (snd (forward_loop env ip c start_time ports w)))).
      a_elapsed a \<le> TIMEOUT env \<and> a_timeout a = TIMEOUT env) \<and>
   (\<forall>a \<in> set (drop (length (net_log w)) (net_log (snd (forward_to_peer env ip c w)))).
      a_elapsed a \<le> TIMEOUT env \<and> a_timeout a = TIMEOUT env)"
proof (intro conjI impI)
  assume "ports \<noteq> [] \<and> clock env (ticks w) - start_time > TIMEOUT env"
  then show "forward_loop env ip c start_time ports w =
        (''ER Request timeout'', w\<lparr>ticks := Suc (ticks w)\<rparr>)"
    by (cases ports) (simp_all add: time_time_def)
next
  from forward_loop_trace [of env ip c start_time ports w]
  show "\<forall>a \<in> set (drop (length (net_log w))
                  (net_log (snd (forward_loop env ip c start_time ports w)))).
      a_elapsed a \<le> TIMEOUT env \<and> a_timeout a = TIMEOUT env"
    by auto
next
  from forward_to_peer_trace [of env ip c w]
  show "\<forall>a \<in> set (drop (length (net_log w)) (net_log (snd (forward_to_peer env ip c w)))).
      a_elapsed a \<le> TIMEOUT env \<and> a_timeout a = TIMEOUT env"
    by auto
qed

text \<open>
  The theorem on a clock that is already 10 seconds past the start at the first check, and
  on a node whose clock advances one second per reading and whose peer never answers: five
  attempts are made, at 1 to 5 seconds, each with timeout 5.
\<close>

theorem budget_check_witness:
  "possible_ports \<noteq> [] \<and>
   clock (example_env (\<lambda>k. 10 * real k) silent) (ticks ((fresh [])\<lparr>ticks := 1\<rparr>)) - 0 >
     TIMEOUT (example_env (\<lambda>k. 10 * real k) silent) \<and>
   forward_loop (example_env (\<lambda>k. 10 * real k) silent) ''1.2.3.4'' ''AB 1/1.2.3.4'' 0
       possible_ports ((fresh [])\<lparr>ticks := 1\<rparr>) =
     (''ER Request timeout'', (fresh [])\<lparr>ticks := 2\<rparr>) \<and>
   map a_port (net_log (snd (forward_to_peer (example_env real silent) ''1.2.3.4''
                               ''AB 1/1.2.3.4'' (fresh [])))) =
     [65525, 65526, 65527, 65528, 65529] \<and>
   map a_elapsed (net_log (snd (forward_to_peer (example_env real silent) ''1.2.3.4''
                                  ''AB 1/1.2.3.4'' (fresh [])))) = [1, 2, 3, 4, 5] \<and>
   map a_timeout (net_log (snd (forward_to_peer (example_env real silent) ''1.2.3.4''
                                  ''AB 1/1.2.3.4'' (fresh [])))) = [5, 5, 5, 5, 5]"
proof -
  have p: "possible_ports \<noteq> []" by (simp add: possible_ports_list)
  have n: "map a_port (net_log (snd (forward_to_peer (example_env real silent) ''1.2.3.4''
                               ''AB 1/1.2.3.4'' (fresh [])))) =
     [65525, 65526, 65527, 65528, 65529]"
    "map a_elapsed (net_log (snd (forward_to_peer (example_env real silent) ''1.2.3.4''
                                  ''AB 1/1.2.3.4'' (fresh [])))) = [1, 2, 3, 4, 5]"
    "map a_timeout (net_log (snd (forward_to_peer (example_env real silent) ''1.2.3.4''
                                  ''AB 1/1.2.3.4'' (fresh [])))) = [5, 5, 5, 5, 5]"
    by (simp_all add: run)
  have t: "TIMEOUT (example_env (\<lambda>k. 10 * real k) silent) = 5"
          "TIMEOUT (example_env real silent) = 5"
          "clock (example_env (\<lambda>k. 10 * real k) silent) = (\<lambda>k. 10 * real k)"
    by (simp_all add: example_env_def table_env_def)
  have f: "net_log (fresh []) = []" "ticks (fresh []) = 0"
    by (simp_all add: fresh_def)
  show ?thesis
    using budget_check [of possible_ports "example_env (\<lambda>k. 10 * real k) silent"
                           "(fresh [])\<lparr>ticks := 1\<rparr>" 0 "''1.2.3.4''" "''AB 1/1.2.3.4''"]
          budget_check [of possible_ports "example_env real silent" "fresh []" 0
                           "''1.2.3.4''" "''AB 1/1.2.3.4''"]
    by (simp add: p n t f)
qed

text \<open>
  Claim C4 as first stated also asks that an attempt's timeout be no larger than the budget
  that remains. The first attempt of this call starts one second into a budget of five and
  is made with a timeout of five.
\<close>

theorem attempt_timeout_counterexample:
  "net_log (snd (forward_to_peer (example_env real (answers (''AB 7'' @ [CHR 0x0A])))
                   ''1.2.3.4'' ''AB 1/1.2.3.4'' (fresh []))) =
     [\<lparr>a_ip = ''1.2.3.4'', a_port = 65525, a_timeout = 5,
       a_data = ''AB 1/1.2.3.4'' @ [CHR 0x0A], a_elapsed = 1,
       a_result = Some (''AB 7'' @ [CHR 0x0A])\<rparr>] \<and>
   a_timeout (hd (net_log (snd (forward_to_peer
       (example_env real (answers (''AB 7'' @ [CHR 0x0A]))) ''1.2.3.4'' ''AB 1/1.2.3.4''
       (fresh []))))) >
   TIMEOUT (example_env real (answers (''AB 7'' @ [CHR 0x0A]))) -
   a_elapsed (hd (net_log (snd (forward_to_peer
       (example_env real (answers (''AB 7'' @ [CHR 0x0A]))) ''1.2.3.4'' ''AB 1/1.2.3.4''
       (fresh [])))))"
  by (simp add: run answers_def)


section \<open>The router boundary\<close>


lemma process_command_Inr: "\<exists>response. fst (process_command env command address w) = Inr response"
  by (auto simp: process_command_def Let_def split: prod.splits sum.splits)


section \<open>The processing timeout of the session handler\<close>

text \<open>
  Claim C9. For every line that is not blank, \<open>handle_client\<close> reads the clock, runs
  \<open>process_command\<close>, reads the clock again, and sends one line: \<open>ER Processing timeout\<close>
  when the second reading exceeds the first by more than \<open>TIMEOUT\<close>, and the router's
  response otherwise. In both cases the world after the line is the world the router left,
  but for the count of clock readings: the database and the repository calls are the
  router's, nothing is undone.
\<close>

theorem processing_timeout:
  assumes "py_strip line \<noteq> []"
  shows "\<exists>response w2.
           process_command env (py_strip line) address (w\<lparr>ticks := Suc (ticks w)\<rparr>) =
             (Inr response, w2) \<and>
           handle_line env address line w =
             (Inr (Some ((if clock env (ticks w2) - clock env (ticks w) > TIMEOUT env
                          then ''ER Processing timeout'' else response) @ [CHR 0x0A])),
              w2\<lparr>ticks := Suc (ticks w2)\<rparr>) \<and>
           db (snd (handle_line env address line w)) = db w2 \<and>
           store_log (snd (handle_line env address line w)) = store_log w2"
proof -
  obtain response w2 where
    pc: "process_command env (py_strip line) address (w\<lparr>ticks := Suc (ticks w)\<rparr>) =
           (Inr response, w2)"
    using process_command_Inr [of env "py_strip line" address "w\<lparr>ticks := Suc (ticks w)\<rparr>"]
    by (metis prod.collapse)
  have "handle_line env address line w =
             (Inr (Some ((if clock env (ticks w2) - clock env (ticks w) > TIMEOUT env
                          then ''ER Processing timeout'' else response) @ [CHR 0x0A])),
              w2\<lparr>ticks := Suc (ticks w2)\<rparr>)"
    using assms by (simp add: handle_line_def time_time_def pc)
  then show ?thesis using pc by simp
qed

text \<open>
  The theorem on a node whose clock advances ten seconds per reading: the deposit of 7 is
  applied, the balance goes from 100 to 107, and the client is sent the timeout line.
\<close>

theorem processing_timeout_witness:
  "py_strip ''AD 12345/127.0.0.1 7'' \<noteq> [] \<and>
   process_command (example_env (\<lambda>k. 10 * real k) silent) ''AD 12345/127.0.0.1 7'' client
       ((fresh [(12345, ''10.0.0.9'', 100)])\<lparr>ticks := 1\<rparr>) =
     (Inr ''AD'', (fresh [(12345, ''10.0.0.9'', 107)])
                    \<lparr>store_log := [Deposit ''12345'' 7], ticks := 1\<rparr>) \<and>
   handle_line (example_env (\<lambda>k. 10 * real k) silent) client ''AD 12345/127.0.0.1 7''
       (fresh [(12345, ''10.0.0.9'', 100)]) =
     (Inr (Some (''ER Processing timeout'' @ [CHR 0x0A])),
      (fresh [(12345, ''10.0.0.9'', 107)])\<lparr>store_log := [Deposit ''12345'' 7], ticks := 2\<rparr>)"
proof -
  have a: "py_strip ''AD 12345/127.0.0.1 7'' = ''AD 12345/127.0.0.1 7''"
    by (simp add: tokens)
  have b: "process_command (example_env (\<lambda>k. 10 * real k) silent) ''AD 12345/127.0.0.1 7''
       client ((fresh [(12345, ''10.0.0.9'', 100)])\<lparr>ticks := Suc 0\<rparr>) =
     (Inr ''AD'', (fresh [(12345, ''10.0.0.9'', 107)])
                    \<lparr>store_log := [Deposit ''12345'' 7], ticks := Suc 0\<rparr>)"
    by (simp add: run)
  have t: "TIMEOUT (example_env (\<lambda>k. 10 * real k) silent) = 5"
          "clock (example_env (\<lambda>k. 10 * real k) silent) = (\<lambda>k. 10 * real k)"
    by (simp_all add: example_env_def table_env_def)
  have f: "ticks (fresh [(12345, ''10.0.0.9'', 100)]) = 0"
    by (simp add: fresh_def)
  show ?thesis
    using processing_timeout [of "''AD 12345/127.0.0.1 7''"
            "example_env (\<lambda>k. 10 * real k) silent" client
            "fresh [(12345, ''10.0.0.9'', 100)]"]
    by (simp add: a b t f)
qed

section \<open>Account creation\<close>

lemma randint_range:
  "lo \<le> hi \<Longrightarrow> lo \<le> fst (randint env lo hi w) \<and> fst (randint env lo hi w) \<le> hi"
proof -
  assume "lo \<le> hi"
  then have pos: "0 < nat (hi - lo + 1)" by simp
  have "entropy env (draws w) mod nat (hi - lo + 1) < nat (hi - lo + 1)"
    using pos by (rule mod_less_divisor)
  then have "int (entropy env (draws w) mod nat (hi - lo + 1)) < hi - lo + 1"
    using pos by linarith
  then show ?thesis by (simp add: randint_def)
qed

lemma account_exists_db:
  "db w' = db w \<Longrightarrow> fst (repo_account_exists env n w') = fst (repo_account_exists env n w)"
  by (simp add: repo_account_exists_def called_def Let_def split: sum.splits)

lemma account_exists_world:
  "snd (repo_account_exists env n w) = w\<lparr>store_log := store_log w @ [AccountExists n]\<rparr>"
  by (simp add: repo_account_exists_def called_def Let_def split: sum.splits)

text \<open>
  The loop of \<open>create_account\<close> with \<open>k\<close> rounds left, in closed form: the numbers it would
  draw, the longest prefix of them found to exist, and what happens at the first that is
  not.
\<close>

lemma create_loop_char:
  "create_loop env ip k w =
     (let nums = map (\<lambda>i. fst (randint env 10000 99999 (w\<lparr>draws := draws w + i\<rparr>))) [0..<k];
          pre = takeWhile (\<lambda>n. fst (repo_account_exists env n w)) nums
      in if length pre = k
         then (''ER Unable to create account'',
               w\<lparr>store_log := store_log w @ map AccountExists nums, draws := draws w + k\<rparr>)
         else (if fst (repo_create_account env (nums ! length pre) ip
                        (w\<lparr>store_log := store_log w @ map AccountExists (pre @ [nums ! length pre]),
                           draws := draws w + length pre + 1\<rparr>))
               then ''AC '' @ str_int (nums ! length pre) @ ''/'' @ ip
               else ''ER Database error'',
               snd (repo_create_account env (nums ! length pre) ip
                      (w\<lparr>store_log := store_log w @ map AccountExists (pre @ [nums ! length pre]),
                         draws := draws w + length pre + 1\<rparr>))))"
proof (induction k arbitrary: w)
  case 0
  show ?case by simp
next
  case (Suc k)
  define n0 where "n0 = fst (randint env 10000 99999 w)"
  define w2 where "w2 = w\<lparr>store_log := store_log w @ [AccountExists n0], draws := Suc (draws w)\<rparr>"
  define nums' where
    "nums' = map (\<lambda>i. fst (randint env 10000 99999 (w2\<lparr>draws := draws w2 + i\<rparr>))) [0..<k]"
  define pre' where "pre' = takeWhile (\<lambda>n. fst (repo_account_exists env n w2)) nums'"
  have n0: "fst (randint env 10000 99999 (w\<lparr>draws := draws w\<rparr>)) = n0"
    by (simp add: n0_def)
  have nums: "map (\<lambda>i. fst (randint env 10000 99999 (w\<lparr>draws := draws w + i\<rparr>))) [0..<Suc k] =
              n0 # nums'"
    by (simp add: map_upt_Suc nums'_def n0_def w2_def randint_def del: upt_Suc)
  have ex_eq: "\<And>n. fst (repo_account_exists env n w2) = fst (repo_account_exists env n w)"
    by (rule account_exists_db) (simp add: w2_def)
  have pre'_eq: "pre' = takeWhile (\<lambda>n. fst (repo_account_exists env n w)) nums'"
    by (simp add: pre'_def ex_eq)
  have step: "create_loop env ip (Suc k) w =
      (if \<not> fst (repo_account_exists env n0 w)
       then (if fst (repo_create_account env n0 ip w2) then ''AC '' @ str_int n0 @ ''/'' @ ip
             else ''ER Database error'', snd (repo_create_account env n0 ip w2))
       else create_loop env ip k w2)"
  proof -
    have r: "randint env 10000 99999 w = (n0, w\<lparr>draws := Suc (draws w)\<rparr>)"
      by (simp add: n0_def randint_def)
    have e: "repo_account_exists env n0 (w\<lparr>draws := Suc (draws w)\<rparr>) =
             (fst (repo_account_exists env n0 w), w2)"
      using account_exists_db [of "w\<lparr>draws := Suc (draws w)\<rparr>" w env n0]
            account_exists_world [of env n0 "w\<lparr>draws := Suc (draws w)\<rparr>"]
      by (simp add: w2_def prod_eq_iff)
    show ?thesis
      by (simp add: r e case_prod_unfold)
  qed
  show ?case
  proof (cases "fst (repo_account_exists env n0 w)")
    case False
    then show ?thesis
      unfolding step nums by (simp add: w2_def)
  next
    case True
    have IH: "create_loop env ip k w2 =
       (if length pre' = k
         then (''ER Unable to create account'',
               w2\<lparr>store_log := store_log w2 @ map AccountExists nums', draws := draws w2 + k\<rparr>)
         else (if fst (repo_create_account env (nums' ! length pre') ip
                        (w2\<lparr>store_log := store_log w2 @ map AccountExists (pre' @ [nums' ! length pre']),
                           draws := draws w2 + length pre' + 1\<rparr>))
               then ''AC '' @ str_int (nums' ! length pre') @ ''/'' @ ip
               else ''ER Database error'',
               snd (repo_create_account env (nums' ! length pre') ip
                      (w2\<lparr>store_log := store_log w2 @ map AccountExists (pre' @ [nums' ! length pre']),
                         draws := draws w2 + length pre' + 1\<rparr>))))"
      using Suc.IH [of w2] by (simp add: nums'_def pre'_def Let_def)
    have s2: "create_loop env ip (Suc k) w = create_loop env ip k w2"
      unfolding step using True by simp
    show ?thesis
      unfolding s2 IH nums using True
      by (simp add: pre'_eq [symmetric] w2_def Let_def)
  qed
qed


lemma create_account_draws:
  "draws (snd (repo_create_account env n ip w)) = draws w"
  by (simp add: repo_create_account_def called_def Let_def split: sum.splits)

text \<open>
  Claim C7. Every number is drawn by \<open>random.randint(10000, 99999)\<close> and so lies in that
  range (which number of the range is drawn is the random generator's matter; its
  distribution is not modelled). \<open>create_account\<close> draws at most five numbers and asks
  the repository about each one drawn, in turn. With \<open>pre\<close> the numbers found to exist before
  the first that is not: when all five exist, the response is
  \<open>ER Unable to create account\<close> after five draws and five existence checks; otherwise the
  next number is the one passed to the repository's \<open>create_account\<close>, with the client's
  address, and the response is \<open>AC number/address\<close> when that succeeds and
  \<open>ER Database error\<close> when it does not.
\<close>

theorem account_creation:
  "create_account env ip w =
     (let nums = map (\<lambda>i. fst (randint env 10000 99999 (w\<lparr>draws := draws w + i\<rparr>))) [0..<5];
          pre = takeWhile (\<lambda>n. fst (repo_account_exists env n w)) nums
      in if length pre = 5
         then (''ER Unable to create account'',
               w\<lparr>store_log := store_log w @ map AccountExists nums, draws := draws w + 5\<rparr>)
         else (if fst (repo_create_account env (nums ! length pre) ip
                        (w\<lparr>store_log := store_log w @ map AccountExists (pre @ [nums ! length pre]),
                           draws := draws w + length pre + 1\<rparr>))
               then ''AC '' @ str_int (nums ! length pre) @ ''/'' @ ip
               else ''ER Database error'',
               snd (repo_create_account env (nums ! length pre) ip
                      (w\<lparr>store_log := store_log w @ map AccountExists (pre @ [nums ! length pre]),
                         draws := draws w + length pre + 1\<rparr>)))) \<and>
   10000 \<le> fst (randint env 10000 99999 w') \<and> fst (randint env 10000 99999 w') \<le> 99999 \<and>
   draws (snd (create_account env ip w)) \<le> draws w + 5"
proof -
  have d: "draws (snd (create_loop env ip k w)) \<le> draws w + k" for k
  proof -
    have "length (takeWhile (\<lambda>n. fst (repo_account_exists env n w))
            (map (\<lambda>i. fst (randint env 10000 99999 (w\<lparr>draws := draws w + i\<rparr>))) [0..<k])) \<le> k"
      using length_takeWhile_le [of "\<lambda>n. fst (repo_account_exists env n w)"
              "map (\<lambda>i. fst (randint env 10000 99999 (w\<lparr>draws := draws w + i\<rparr>))) [0..<k]"]
      by simp
    then show ?thesis
      by (simp add: create_loop_char [of env ip k w] Let_def create_account_draws)
  qed
  show ?thesis
    using randint_range [of 10000 99999 env w'] d [of 5]
    by (simp add: create_account_def create_loop_char [of env ip 5 w])
qed

text \<open>
  The theorem on a node whose generator always draws 12345: with an empty table the account
  12345 is created; with 12345 taken, five draws fail.
\<close>

theorem account_creation_witness:
  "create_account (example_env real silent) ''10.0.0.9'' (fresh []) =
     (''AC 12345/10.0.0.9'',
      (fresh [(12345, ''10.0.0.9'', 0)])
        \<lparr>store_log := [AccountExists 12345, CreateAccount 12345 ''10.0.0.9''], draws := 1\<rparr>) \<and>
   create_account (example_env real silent) ''10.0.0.9'' (fresh [(12345, ''10.0.0.1'', 0)]) =
     (''ER Unable to create account'',
      (fresh [(12345, ''10.0.0.1'', 0)])
        \<lparr>store_log := [AccountExists 12345, AccountExists 12345, AccountExists 12345,
                       AccountExists 12345, AccountExists 12345], draws := 5\<rparr>)"
proof -
  have a: "create_account (example_env real silent) ''10.0.0.9'' (fresh []) =
     (''AC 12345/10.0.0.9'',
      (fresh [(12345, ''10.0.0.9'', 0)])
        \<lparr>store_log := [AccountExists 12345, CreateAccount 12345 ''10.0.0.9''], draws := 1\<rparr>)"
    by (simp add: run)
  have b: "create_account (example_env real silent) ''10.0.0.9'' (fresh [(12345, ''10.0.0.1'', 0)]) =
     (''ER Unable to create account'',
      (fresh [(12345, ''10.0.0.1'', 0)])
        \<lparr>store_log := [AccountExists 12345, AccountExists 12345, AccountExists 12345,
                       AccountExists 12345, AccountExists 12345], draws := 5\<rparr>)"
    by (simp add: run)
  show ?thesis
    using account_creation [of "example_env real silent" "''10.0.0.9''" "fresh []" "fresh []"]
    by (simp only: a b)
qed

section \<open>The reference returned by AC\<close>

lemma str_int_no_slash: "CHR ''/'' \<notin> set (str_int n)"
  using str_nat_digits [of "nat n"] str_nat_digits [of "nat (- n)"]
  by (auto simp: str_int_def)

lemma create_loop_response:
  "fst (create_loop env ip k w) = ''ER Unable to create account'' \<or>
   fst (create_loop env ip k w) = ''ER Database error'' \<or>
   (\<exists>n. 10000 \<le> n \<and> n \<le> 99999 \<and> fst (create_loop env ip k w) = ''AC '' @ str_int n @ ''/'' @ ip)"
proof (induction k arbitrary: w)
  case 0
  show ?case by simp
next
  case (Suc k)
  have r: "10000 \<le> fst (randint env 10000 99999 w) \<and> fst (randint env 10000 99999 w) \<le> 99999"
    using randint_range [of 10000 99999 env w] by simp
  show ?case
    using Suc.IH r
    by (auto simp: case_prod_unfold Let_def)
qed

text \<open>
  Claim C10. Let an AC command of a client at address \<open>client_ip\<close>, other than HOST, be
  answered \<open>AC ref\<close>. Then \<open>ref\<close> is a five-digit number, \<open>/\<close>, and \<open>client_ip\<close>; and in every
  later world every AB, AR, AD or AW command on \<open>ref\<close> is handed to the forwarder, for the
  address \<open>client_ip\<close>, and is not run on the local repository, whose log and database stay
  as they are, although the account was created there.
\<close>

theorem client_reference_forwarded:
  assumes "py_split (py_strip ac_line) = v0 # rest0" and "py_upper v0 = ''AC''"
      and "process_command env ac_line (client_ip, client_port) w0 = (Inr (''AC '' @ ref), w1)"
      and "client_ip \<noteq> HOST env" and "CHR ''/'' \<notin> set client_ip"
      and "(py_split (py_strip command) = [v, ref] \<and>
              (py_upper v = ''AB'' \<or> py_upper v = ''AR'') \<and> tail = []) \<or>
           (py_split (py_strip command) = [v, ref, amt] \<and>
              (py_upper v = ''AD'' \<or> py_upper v = ''AW'') \<and>
              py_int amt = Inr a \<and> tail = '' '' @ str_int a)"
  shows "(\<exists>n. 10000 \<le> n \<and> n \<le> 99999 \<and> ref = str_int n @ ''/'' @ client_ip) \<and>
         process_command env command address w =
           (Inr (fst (forward_to_peer env client_ip (py_upper v @ '' '' @ ref @ tail) w)),
            snd (forward_to_peer env client_ip (py_upper v @ '' '' @ ref @ tail) w)) \<and>
         fwd_log (snd (process_command env command address w)) =
           fwd_log w @ [(client_ip, py_upper v @ '' '' @ ref @ tail)] \<and>
         store_log (snd (process_command env command address w)) = store_log w \<and>
         db (snd (process_command env command address w)) = db w"
proof -
  have "process_command env ac_line (client_ip, client_port) w0 =
          dispatch env ''AC'' (v0 # rest0) (client_ip, client_port) w0"
    using process_command_dispatch [OF assms(1)] assms(2) by simp
  then have "fst (create_account env client_ip w0) = ''AC '' @ ref"
    using assms(3) by (simp add: dispatch_def handle_ac_def case_prod_unfold Let_def)
  then have "fst (create_loop env client_ip 5 w0) = ''AC '' @ ref"
    by (simp add: create_account_def)
  with create_loop_response [of env client_ip 5 w0]
  obtain n where n: "10000 \<le> n" "n \<le> 99999" "ref = str_int n @ ''/'' @ client_ip"
    by auto
  have sp: "split_on CHR ''/'' ref = [str_int n, client_ip]"
    using n(3) assms(5) str_int_no_slash [of n] by (simp add: split_on_one)
  have pc: "process_command env command address w =
           (Inr (fst (forward_to_peer env client_ip (py_upper v @ '' '' @ ref @ tail) w)),
            snd (forward_to_peer env client_ip (py_upper v @ '' '' @ ref @ tail) w))"
    using forward_route [OF sp assms(4) assms(6), of "py_upper v @ '' '' @ ref @ tail" address w]
          n(3) by simp
  show ?thesis
    using n by (auto simp: pc forward_to_peer_keeps)
qed

text \<open>
  The theorem for the client 10.0.0.9 of the node 127.0.0.1: AC creates 12345 in the local
  table and answers \<open>AC 12345/10.0.0.9\<close>; the deposit \<open>AD 12345/10.0.0.9 100\<close> that follows
  is forwarded to 10.0.0.9 and the local balance stays 0.
\<close>

theorem client_reference_forwarded_witness:
  "py_split (py_strip ''AC'') = [''AC''] \<and> py_upper ''AC'' = ''AC'' \<and>
   process_command (example_env real silent) ''AC'' (''10.0.0.9'', 4000) (fresh []) =
     (Inr (''AC '' @ ''12345/10.0.0.9''),
      (fresh [(12345, ''10.0.0.9'', 0)])
        \<lparr>store_log := [AccountExists 12345, CreateAccount 12345 ''10.0.0.9''], draws := 1\<rparr>) \<and>
   ''10.0.0.9'' \<noteq> HOST (example_env real silent) \<and> CHR ''/'' \<notin> set ''10.0.0.9'' \<and>
   py_split (py_strip ''AD 12345/10.0.0.9 100'') = [''AD'', ''12345/10.0.0.9'', ''100''] \<and>
   py_int ''100'' = Inr 100 \<and>
   fwd_log (snd (process_command (example_env real silent) ''AD 12345/10.0.0.9 100''
                   (''10.0.0.9'', 4000)
                   ((fresh [(12345, ''10.0.0.9'', 0)])
                      \<lparr>store_log := [AccountExists 12345, CreateAccount 12345 ''10.0.0.9''],
                        draws := 1\<rparr>))) =
     [(''10.0.0.9'', ''AD 12345/10.0.0.9 100'')] \<and>
   store_log (snd (process_command (example_env real silent) ''AD 12345/10.0.0.9 100''
                     (''10.0.0.9'', 4000)
                     ((fresh [(12345, ''10.0.0.9'', 0)])
                        \<lparr>store_log := [AccountExists 12345, CreateAccount 12345 ''10.0.0.9''],
                          draws := 1\<rparr>))) =
     [AccountExists 12345, CreateAccount 12345 ''10.0.0.9''] \<and>
   db (snd (process_command (example_env real silent) ''AD 12345/10.0.0.9 100''
              (''10.0.0.9'', 4000)
              ((fresh [(12345, ''10.0.0.9'', 0)])
                 \<lparr>store_log := [AccountExists 12345, CreateAccount 12345 ''10.0.0.9''],
                   draws := 1\<rparr>))) =
     [(12345, ''10.0.0.9'', 0)]"
proof -
  have a: "py_split (py_strip ''AC'') = [''AC'']" and b: "py_upper ''AC'' = ''AC''"
    by (simp_all add: tokens)
  have c: "process_command (example_env real silent) ''AC'' (''10.0.0.9'', 4000) (fresh []) =
     (Inr (''AC '' @ ''12345/10.0.0.9''),
      (fresh [(12345, ''10.0.0.9'', 0)])
        \<lparr>store_log := [AccountExists 12345, CreateAccount 12345 ''10.0.0.9''], draws := 1\<rparr>)"
    by (simp add: run)
  have d: "''10.0.0.9'' \<noteq> HOST (example_env real silent)"
    by (simp add: example_env_def table_env_def)
  have e: "CHR ''/'' \<notin> set ''10.0.0.9''" by simp
  have f: "(py_split (py_strip ''AD 12345/10.0.0.9 100'') = [''AD'', ''12345/10.0.0.9''] \<and>
              (py_upper ''AD'' = ''AB'' \<or> py_upper ''AD'' = ''AR'') \<and> '' 100'' = []) \<or>
           (py_split (py_strip ''AD 12345/10.0.0.9 100'') = [''AD'', ''12345/10.0.0.9'', ''100''] \<and>
              (py_upper ''AD'' = ''AD'' \<or> py_upper ''AD'' = ''AW'') \<and>
              py_int ''100'' = Inr 100 \<and> '' 100'' = '' '' @ str_int 100)"
    by (simp add: tokens str_int_def str_nat.simps)
  have g: "py_split (py_strip ''AD 12345/10.0.0.9 100'') = [''AD'', ''12345/10.0.0.9'', ''100'']"
          "py_int ''100'' = Inr 100" "py_upper ''AD'' = ''AD''"
    by (simp_all add: tokens)
  have h: "fwd_log (fresh [(12345, ''10.0.0.9'', 0)]) = []"
          "db (fresh [(12345, ''10.0.0.9'', 0)]) = [(12345, ''10.0.0.9'', 0)]"
    by (simp_all add: fresh_def)
  show ?thesis
    using client_reference_forwarded [OF a b c d e f, of "(''10.0.0.9'', 4000)"
            "(fresh [(12345, ''10.0.0.9'', 0)])
               \<lparr>store_log := [AccountExists 12345, CreateAccount 12345 ''10.0.0.9''],
                 draws := 1\<rparr>"]
    by (elim conjE) (simp add: a b c d g h)
qed

end
